theory Spec2Isabelle
  imports Complex_Main
begin

section \<open>JavaScript values\<close>

text \<open>
  A TypeScript \<open>number\<close> is an IEEE double. The components below only compare numbers
  with \<open>>=\<close> and \<open>>\<close>, and a comparison of doubles is the comparison of the values
  they denote, except that every comparison with \<open>NaN\<close> is false. So a number is
  modelled by the value it denotes: a rational (a superset of the finite doubles, with
  \<open>-0\<close> and \<open>+0\<close> identified, as the comparisons do), an infinity, or \<open>NaN\<close>.
  A prop of type \<open>number | undefined\<close> is a \<open>number option\<close>, \<open>None\<close> being
  \<open>undefined\<close>.
\<close>

datatype number = NaN | NegInfinity | Fin rat | PosInfinity

text \<open>The operator \<open>>=\<close> on two numbers.\<close>

fun number_ge :: "number \<Rightarrow> number \<Rightarrow> bool" where
  "number_ge NaN y = False"
| "number_ge x NaN = False"
| "number_ge PosInfinity y = True"
| "number_ge x NegInfinity = True"
| "number_ge NegInfinity y = False"
| "number_ge (Fin a) PosInfinity = False"
| "number_ge (Fin a) (Fin b) = (b \<le> a)"

text \<open>The operator \<open>>\<close> on two numbers.\<close>

fun number_gt :: "number \<Rightarrow> number \<Rightarrow> bool" where
  "number_gt NaN y = False"
| "number_gt x NaN = False"
| "number_gt x PosInfinity = False"
| "number_gt NegInfinity y = False"
| "number_gt PosInfinity y = True"
| "number_gt (Fin a) NegInfinity = True"
| "number_gt (Fin a) (Fin b) = (b < a)"

text \<open>
  The conversion that \<open>>\<close> applies to an operand of type \<open>number | undefined\<close>:
  \<open>undefined\<close> becomes \<open>NaN\<close>.
\<close>

fun to_number :: "number option \<Rightarrow> number" where
  "to_number None = NaN"
| "to_number (Some n) = n"

section \<open>Rendered output\<close>

text \<open>
  What a component returns: a JSX element \<open><Tag a={x} b={y}>children</Tag>\<close> is
  \<open>Element ''Tag'' [(''a'', x), (''b'', y)] children\<close>, with the attributes in the order
  they are written; a child expression \<open>{e}\<close> is \<open>Expr e\<close>; \<open>null\<close> is \<open>Null\<close>.
  The type \<open>'p\<close> is the type of the attribute values of one component.
\<close>

datatype 'p node =
    Element string "(string \<times> 'p) list" "'p node list"
  | Expr 'p
  | Null

fun tag_of :: "'p node \<Rightarrow> string option" where
  "tag_of (Element tag attrs children) = Some tag"
| "tag_of n = None"

fun attrs_of :: "'p node \<Rightarrow> (string \<times> 'p) list" where
  "attrs_of (Element tag attrs children) = attrs"
| "attrs_of n = []"

fun children_of :: "'p node \<Rightarrow> 'p node list" where
  "children_of (Element tag attrs children) = children"
| "children_of n = []"

text \<open>An attribute of an element; of two attributes with one name the later one counts.\<close>

definition attr :: "string \<Rightarrow> 'p node \<Rightarrow> 'p option" where
  "attr name n = map_of (rev (attrs_of n)) name"

text \<open>A node and everything below it, in document order.\<close>

fun descendants :: "'p node \<Rightarrow> 'p node list" where
  "descendants (Element tag attrs children) =
     Element tag attrs children # concat (map descendants children)"
| "descendants n = [n]"

definition elements_named :: "string \<Rightarrow> 'p node \<Rightarrow> 'p node list" where
  "elements_named tag n = filter (\<lambda>d. tag_of d = Some tag) (descendants n)"

section \<open>The DOM mutation row of the replay details\<close>

text \<open>
  A replay frame. The row reads \<open>offsetMs\<close>, \<open>timestampMs\<close> and \<open>message\<close>
  (\<open>frame.message ?? ''\<close>: the field may be missing); the other fields of a frame are
  the extension of the record, read by \<open>getFrameDetails\<close> and by the caller's handlers.
\<close>

record frame =
  offsetMs :: number
  timestampMs :: number
  message :: "string option"

definition hasOccurred :: "number \<Rightarrow> 'f frame_scheme \<Rightarrow> bool" where
  "hasOccurred currentTime frame = number_ge currentTime (offsetMs frame)"

definition isBeforeHover :: "number option \<Rightarrow> 'f frame_scheme \<Rightarrow> bool" where
  "isBeforeHover currentHoverTime frame =
     (case currentHoverTime of
        None \<Rightarrow> True
      | Some hoverTime \<Rightarrow> number_ge hoverTime (offsetMs frame))"

text \<open>The object of flags that the row gives to \<open>classNames\<close>.\<close>

definition styleFlags :: "number option \<Rightarrow> number \<Rightarrow> 'f frame_scheme \<Rightarrow> (string \<times> bool) list" where
  "styleFlags currentHoverTime currentTime frame =
     [(''beforeCurrentTime'', hasOccurred currentTime frame),
      (''afterCurrentTime'', \<not> hasOccurred currentTime frame),
      (''beforeHoverTime'', currentHoverTime \<noteq> None \<and> isBeforeHover currentHoverTime frame),
      (''afterHoverTime'', currentHoverTime \<noteq> None \<and> \<not> isBeforeHover currentHoverTime frame)]"

record 'f Extraction =
  html :: string
  frame :: "'f frame_scheme"

text \<open>What \<open>getFrameDetails\<close> returns, as far as the row reads it.\<close>

record 'd frame_details =
  color :: 'd
  title :: 'd
  type :: 'd

text \<open>The argument of the click handler: \<open>stopPropagation\<close> sets a flag of the event.\<close>

record mouse_event =
  propagationStopped :: bool

definition stopPropagation :: "'e mouse_event_scheme \<Rightarrow> 'e mouse_event_scheme" where
  "stopPropagation event = event\<lparr>propagationStopped := True\<rparr>"

text \<open>
  The props. The three handlers come from the caller (\<open>useCrumbHandlers\<close>); what they do
  is a change of the caller's state \<open>'w\<close>.
\<close>

record ('f, 'w, 's) Props =
  currentHoverTime :: "number option"
  currentTime :: number
  handleMouseEnter :: "'f frame_scheme \<Rightarrow> 'w \<Rightarrow> 'w"
  handleMouseLeave :: "'f frame_scheme \<Rightarrow> 'w \<Rightarrow> 'w"
  mutation :: "'f Extraction"
  onClickTimestamp :: "'f frame_scheme \<Rightarrow> 'w \<Rightarrow> 'w"
  startTimestampMs :: number
  style :: 's

text \<open>The values of the attributes and child expressions of the row.\<close>

datatype ('d, 'w, 's) row_value =
    ClassName "string list"
  | Handler "'w \<Rightarrow> 'w"
  | ClickHandler "mouse_event \<Rightarrow> 'w \<Rightarrow> mouse_event \<times> 'w"
  | Style 's
  | Detail 'd
  | Boolean bool
  | Number number
  | Str string

text \<open>
  \<open>classNames\<close> of the package of that name, applied to an object of flags: the keys
  whose value is true, in the order of the object. The class attribute is the list of
  these class names (the package joins them with spaces).
\<close>

definition classNames :: "(string \<times> bool) list \<Rightarrow> string list" where
  "classNames flags = map fst (filter snd flags)"

text \<open>The options of the beautifier.\<close>

record beautify_options =
  indent_size :: nat

text \<open>
  The row. \<open>getFrameDetails\<close> is imported from outside the files at hand and is a
  parameter. \<open>beautify_html\<close> is \<open>beautify.html\<close> of the package js-beautify.
  Modelled from the spec: the beautifier is "a pure text transform with no error path",
  so it is a parameter of type \<open>string \<Rightarrow> beautify_options \<Rightarrow> string\<close>.
\<close>

definition DomMutationRow ::
  "('f frame_scheme \<Rightarrow> 'd frame_details) \<Rightarrow> (string \<Rightarrow> beautify_options \<Rightarrow> string) \<Rightarrow>
   ('f, 'w, 's) Props \<Rightarrow> ('d, 'w, 's) row_value node" where
  "DomMutationRow getFrameDetails beautify_html props =
     (let html = Extraction.html (mutation props);
          frame = Extraction.frame (mutation props);
          details = getFrameDetails frame
      in Element ''MutationListItem''
           [(''className'', ClassName (classNames
               (styleFlags (currentHoverTime props) (currentTime props) frame))),
            (''onMouseEnter'', Handler (handleMouseEnter props frame)),
            (''onMouseLeave'', Handler (handleMouseLeave props frame)),
            (''style'', Style (style props))]
           [Element ''IconWrapper''
              [(''color'', Detail (color details)),
               (''hasOccurred'', Boolean (hasOccurred (currentTime props) frame))]
              [Element ''BreadcrumbIcon'' [(''type'', Detail (type details))] []],
            Element ''List'' []
              [Element ''Row'' []
                 [Element ''Title''
                    [(''hasOccurred'', Boolean (hasOccurred (currentTime props) frame))]
                    [Expr (Detail (title details))],
                  Element ''TimestampButton''
                    [(''onClick'', ClickHandler (\<lambda>event w.
                        (stopPropagation event, onClickTimestamp props frame w))),
                     (''startTimestampMs'', Number (startTimestampMs props)),
                     (''timestampMs'', Number (timestampMs frame))]
                    []],
               Element ''Selector'' []
                 [Expr (Str (case message frame of Some m \<Rightarrow> m | None \<Rightarrow> ''''))],
               Element ''CodeContainer'' []
                 [Element ''CodeSnippet''
                    [(''language'', Str ''html''), (''hideCopyButton'', Boolean True)]
                    [Expr (Str (beautify_html html \<lparr>indent_size = 2\<rparr>))]]]])"

text \<open>The class names of a rendered element.\<close>

definition classes_of :: "('d, 'w, 's) row_value node \<Rightarrow> string list" where
  "classes_of n = (case attr ''className'' n of Some (ClassName cs) \<Rightarrow> cs | _ \<Rightarrow> [])"

text \<open>
  The handlers that a rendered row installs: the names of the attributes that hold a
  handler, the functions at \<open>onMouseEnter\<close> and \<open>onMouseLeave\<close> of an element, and
  the functions at \<open>onClick\<close> of the timestamp buttons.
\<close>

fun is_handler :: "('d, 'w, 's) row_value \<Rightarrow> bool" where
  "is_handler (Handler h) = True"
| "is_handler (ClickHandler h) = True"
| "is_handler v = False"

definition handler_names :: "('d, 'w, 's) row_value node \<Rightarrow> string list" where
  "handler_names n =
     map fst (filter (\<lambda>a. is_handler (snd a)) (concat (map attrs_of (descendants n))))"

definition mouse_handlers :: "string \<Rightarrow> ('d, 'w, 's) row_value node \<Rightarrow> ('w \<Rightarrow> 'w) list" where
  "mouse_handlers name n = (case attr name n of Some (Handler h) \<Rightarrow> [h] | _ \<Rightarrow> [])"

definition click_handlers ::
  "('d, 'w, 's) row_value node \<Rightarrow>
   (mouse_event \<Rightarrow> 'w \<Rightarrow> mouse_event \<times> 'w) list" where
  "click_handlers n =
     concat (map (\<lambda>b. case attr ''onClick'' b of Some (ClickHandler h) \<Rightarrow> [h] | _ \<Rightarrow> [])
       (elements_named ''TimestampButton'' n))"

text \<open>
  An example row: the mutation happened one second into the replay, the replay is at a
  second and a half, and nothing is hovered. The caller's handlers write what they are
  called with into a log, the caller's state. The snapshot is malformed HTML.
\<close>

definition example_frame :: frame where
  "example_frame = \<lparr>offsetMs = Fin 1000, timestampMs = Fin 61000, message = Some ''div > p''\<rparr>"

definition example_row :: "(unit, (string \<times> frame) list, unit) Props" where
  "example_row =
     \<lparr>currentHoverTime = None,
      currentTime = Fin 1500,
      handleMouseEnter = (\<lambda>f w. w @ [(''handleMouseEnter'', f)]),
      handleMouseLeave = (\<lambda>f w. w @ [(''handleMouseLeave'', f)]),
      mutation = \<lparr>html = ''<div><p>text</div>'', frame = example_frame\<rparr>,
      onClickTimestamp = (\<lambda>f w. w @ [(''onClickTimestamp'', f)]),
      startTimestampMs = Fin 60000,
      style = ()\<rparr>"

definition example_details :: "frame \<Rightarrow> string frame_details" where
  "example_details f = \<lparr>color = ''gray300'', title = ''Mutation'', type = ''default''\<rparr>"

definition example_beautify :: "string \<Rightarrow> beautify_options \<Rightarrow> string" where
  "example_beautify text options = replicate (indent_size options) CHR '' '' @ text"

section \<open>The default line of a stack frame\<close>

text \<open>
  Modelled from the spec: \<open>defined\<close> of \<open>app/utils\<close> is not among the files at hand;
  the badge is shown when the repeat count "is defined", so \<open>defined\<close> is false of
  \<open>undefined\<close> and true of a value.
\<close>

definition defined :: "'a option \<Rightarrow> bool" where
  "defined item = (case item of None \<Rightarrow> False | Some v \<Rightarrow> True)"

text \<open>
  The values of the attributes of the line. The props that the line hands on to
  \<open>LeadHint\<close>, \<open>DefaultTitle\<close> and \<open>Expander\<close> unread have types declared outside the
  files at hand: \<open>'f\<close> is the type of a stack frame, \<open>'v\<close> the type of the other values.
\<close>

datatype ('f, 'v) line_value =
    LFrame 'f
  | LPassed 'v
  | LBoolean bool
  | LNumber number
  | LString string

text \<open>
  \<open>renderRepeats\<close>, a function local to the component; \<open>tn\<close> (the plural-aware
  translation of \<open>app/locale\<close>) is a parameter.
\<close>

definition renderRepeats ::
  "(string \<Rightarrow> string \<Rightarrow> number \<Rightarrow> string) \<Rightarrow> number option \<Rightarrow> ('f, 'v) line_value node" where
  "renderRepeats tn timesRepeated =
     (if defined timesRepeated \<and> number_gt (to_number timesRepeated) (Fin 0) then
        Element ''RepeatedFrames''
          [(''title'', LString (tn ''Frame repeated %s time'' ''Frame repeated %s times''
                                  (to_number timesRepeated)))]
          [Element ''RepeatedContent'' []
             [Element ''StyledIconRefresh'' [] [],
              Element ''span'' [] [Expr (LNumber (to_number timesRepeated))]]]
      else Null)"

text \<open>The props of the line; \<open>props\<close> is the rest, handed on to \<open>Expander\<close>.\<close>

record ('f, 'v) DefaultProps =
  frame :: 'f
  nextFrame :: 'v
  isHoverPreviewed :: 'v
  isExpanded :: 'v
  platform :: 'v
  timesRepeated :: "number option"
  isUsedForGrouping :: bool
  leadsToApp :: 'v
  props :: "(string \<times> 'v) list"

definition Default ::
  "(string \<Rightarrow> string \<Rightarrow> number \<Rightarrow> string) \<Rightarrow> ('f, 'v) DefaultProps \<Rightarrow> ('f, 'v) line_value node" where
  "Default tn p =
     Element ''Wrapper'' [(''className'', LString ''title'')]
       [Element ''VertCenterWrapper'' []
          [Element ''LeadHint''
             [(''isExpanded'', LPassed (isExpanded p)),
              (''nextFrame'', LPassed (nextFrame p)),
              (''leadsToApp'', LPassed (leadsToApp p))]
             [],
           Element ''DefaultTitle''
             [(''frame'', LFrame (DefaultProps.frame p)),
              (''platform'', LPassed (platform p)),
              (''isHoverPreviewed'', LPassed (isHoverPreviewed p)),
              (''isUsedForGrouping'', LBoolean (isUsedForGrouping p))]
             [],
           renderRepeats tn (timesRepeated p)],
        Element ''Expander''
          ([(''isExpanded'', LPassed (isExpanded p)),
            (''isHoverPreviewed'', LPassed (isHoverPreviewed p)),
            (''platform'', LPassed (platform p))]
           @ map (\<lambda>(k, v). (k, LPassed v)) (props p))
          []]"

text \<open>An example line, of a frame repeated three times.\<close>

definition example_line :: "(string, bool) DefaultProps" where
  "example_line =
     \<lparr>frame = ''main'', nextFrame = False, isHoverPreviewed = False, isExpanded = True,
      platform = False, timesRepeated = Some (Fin 3), isUsedForGrouping = True,
      leadsToApp = False, props = [(''isExpandable'', True)]\<rparr>"

definition example_tn :: "string \<Rightarrow> string \<Rightarrow> number \<Rightarrow> string" where
  "example_tn singular plural n = (if n = Fin 1 then singular else plural)"

section \<open>The evidence of an event\<close>

text \<open>
  The types of \<open>sentry/types\<close> as far as the component reads them; the other fields of
  an occurrence, an event, a group and a configuration are the extensions of the records.
  The component reads \<open>evidenceDisplay?.length\<close>, so the list may be missing.
\<close>

record EventEvidenceDisplay =
  name :: string
  "value" :: string

record EventOccurrence =
  evidenceDisplay :: "EventEvidenceDisplay list option"
  type :: number

record 'o Event =
  occurrence :: "'o EventOccurrence_scheme option"

text \<open>
  What \<open>getIssueCategoryAndTypeFromOccurrenceType\<close> returns and \<open>getConfigForIssueType\<close>
  takes. A group has these two fields and others.
\<close>

record IssueCategoryAndType =
  issueCategory :: string
  issueType :: string

record evidence_config =
  title :: string
  helpText :: "string option"

record IssueTypeConfig =
  evidence :: "evidence_config option"

text \<open>
  The category and type of the issue, \<open>group ?? getIssueCategoryAndTypeFromOccurrenceType(
  event.occurrence.type)\<close> destructured to its two fields. The functions that the
  component imports from \<open>sentry/utils/events\<close> and \<open>sentry/utils/issueTypeConfig\<close> are
  parameters.
\<close>

definition issueCategoryAndType ::
  "(number \<Rightarrow> IssueCategoryAndType) \<Rightarrow> 'g IssueCategoryAndType_scheme option \<Rightarrow>
   'o EventOccurrence_scheme \<Rightarrow> IssueCategoryAndType" where
  "issueCategoryAndType getIssueCategoryAndTypeFromOccurrenceType grp occ =
     (case grp of
        Some g \<Rightarrow> \<lparr>issueCategory = issueCategory g, issueType = issueType g\<rparr>
      | None \<Rightarrow> getIssueCategoryAndTypeFromOccurrenceType (EventOccurrence.type occ))"

record ('o, 'e, 'g) EvidenceProps =
  event :: "('o, 'e) Event_scheme"
  projectSlug :: string
  group :: "'g IssueCategoryAndType_scheme option"

text \<open>The values of the attributes of the panel; an object is a list of keys and values.\<close>

datatype ('o, 'e) evidence_value =
    EEvent "('o, 'e) Event_scheme"
  | EString string
  | EOptString "string option"
  | EBoolean bool
  | EObjects "(string \<times> string) list list"

text \<open>The component.\<close>

definition EventEvidence ::
  "(('o, 'e) Event_scheme \<Rightarrow> bool) \<Rightarrow> (number \<Rightarrow> IssueCategoryAndType) \<Rightarrow>
   (IssueCategoryAndType \<Rightarrow> 'c IssueTypeConfig_scheme) \<Rightarrow>
   ('o, 'e, 'g) EvidenceProps \<Rightarrow> ('o, 'e) evidence_value node" where
  "EventEvidence eventIsProfilingIssue getIssueCategoryAndTypeFromOccurrenceType
     getConfigForIssueType p =
     (case occurrence (event p) of
        None \<Rightarrow> Null
      | Some occ \<Rightarrow>
          if eventIsProfilingIssue (event p) then
            Element ''ProfileEventEvidence''
              [(''event'', EEvent (event p)), (''projectSlug'', EString (projectSlug p))] []
          else
            let config = evidence (getConfigForIssueType
                  (issueCategoryAndType getIssueCategoryAndTypeFromOccurrenceType (group p) occ))
            in (case (evidenceDisplay occ, config) of
                  (Some items, Some c) \<Rightarrow>
                    if length items = 0 then Null
                    else
                      Element ''EventDataSection''
                        [(''title'', EString (evidence_config.title c)),
                         (''type'', EString ''evidence''),
                         (''help'', EOptString (helpText c))]
                        [Element ''KeyValueList''
                           [(''data'', EObjects (map (\<lambda>item.
                               [(''subject'', name item),
                                (''key'', name item),
                                (''value'', value item)]) items)),
                            (''shouldSort'', EBoolean False)]
                           []]
                | _ \<Rightarrow> Null))"

text \<open>The rows that a rendered panel gives to its \<open>KeyValueList\<close>, one list per list.\<close>

definition keyValueRows :: "('o, 'e) evidence_value node \<Rightarrow> (string \<times> string) list list list" where
  "keyValueRows n =
     concat (map (\<lambda>k. case attr ''data'' k of Some (EObjects rows) \<Rightarrow> [rows] | _ \<Rightarrow> [])
       (elements_named ''KeyValueList'' n))"

text \<open>
  Examples. An event of a performance issue with two items of evidence; the same with
  an empty list; an event of an issue whose category has no configuration of evidence;
  an event of a profiling issue; an event with no occurrence. An example of
  \<open>eventIsProfilingIssue\<close> (by the type of the occurrence), of the derivation of
  category and type from the type of an occurrence, and of the registry, which has a
  configuration of evidence for the category \<open>performance\<close> only.
\<close>

definition example_event :: "(unit, unit) Event_scheme" where
  "example_event =
     \<lparr>occurrence = Some
        \<lparr>evidenceDisplay = Some
           [\<lparr>name = ''Transaction'', value = ''/books/''\<rparr>,
            \<lparr>name = ''Offending Spans'', value = ''db - SELECT''\<rparr>],
         type = Fin 1006\<rparr>\<rparr>"

definition example_event_empty_list :: "(unit, unit) Event_scheme" where
  "example_event_empty_list =
     \<lparr>occurrence = Some \<lparr>evidenceDisplay = Some [], type = Fin 1006\<rparr>\<rparr>"

definition example_event_other_category :: "(unit, unit) Event_scheme" where
  "example_event_other_category =
     \<lparr>occurrence = Some
        \<lparr>evidenceDisplay = Some [\<lparr>name = ''Reason'', value = ''timeout''\<rparr>],
         type = Fin 8001\<rparr>\<rparr>"

definition example_profile_event :: "(unit, unit) Event_scheme" where
  "example_profile_event =
     \<lparr>occurrence = Some \<lparr>evidenceDisplay = Some [], type = Fin 2001\<rparr>\<rparr>"

definition example_event_no_occurrence :: "(unit, unit) Event_scheme" where
  "example_event_no_occurrence = \<lparr>occurrence = None\<rparr>"

definition example_profiling :: "(unit, unit) Event_scheme \<Rightarrow> bool" where
  "example_profiling e =
     (case occurrence e of
        None \<Rightarrow> False
      | Some occ \<Rightarrow> EventOccurrence.type occ = Fin 2001)"

definition example_category :: "number \<Rightarrow> IssueCategoryAndType" where
  "example_category occurrenceType =
     (if occurrenceType = Fin 1006
      then \<lparr>issueCategory = ''performance'', issueType = ''performance_n_plus_one_db_queries''\<rparr>
      else if occurrenceType = Fin 2001
      then \<lparr>issueCategory = ''profile'', issueType = ''profile_file_io_main_thread''\<rparr>
      else \<lparr>issueCategory = ''cron'', issueType = ''monitor_check_in_failure''\<rparr>)"

definition example_registry :: "IssueCategoryAndType \<Rightarrow> IssueTypeConfig" where
  "example_registry k =
     (if issueCategory k = ''performance''
      then \<lparr>evidence = Some \<lparr>title = ''Span Evidence'', helpText = None\<rparr>\<rparr>
      else \<lparr>evidence = None\<rparr>)"

text \<open>
  A registry that answers every key with a configuration whose title spells the key
  out, so that the title of a rendered panel shows the key that was looked up.
\<close>

definition example_echo_registry :: "IssueCategoryAndType \<Rightarrow> IssueTypeConfig" where
  "example_echo_registry k =
     \<lparr>evidence = Some \<lparr>title = issueCategory k @ ''/'' @ issueType k, helpText = None\<rparr>\<rparr>"

definition example_group :: IssueCategoryAndType where
  "example_group =
     \<lparr>issueCategory = ''performance'', issueType = ''performance_slow_db_query''\<rparr>"

section \<open>The page of the HTTP module\<close>

text \<open>
  Modelled from the spec: the enumeration \<open>ModuleName\<close> of \<open>sentry/views/starfish/types\<close>
  is not among the files at hand; the page is "scoped by a fixed module identifier",
  \<open>ModuleName.HTTP\<close>, the only member the page names. The other members stand for the
  rest of the enumeration.
\<close>

datatype ModuleName = HTTP | DB | NONE

datatype page_value = PBoolean bool | PModuleName ModuleName | PString string

text \<open>The page; \<open>t\<close> (the translation of \<open>sentry/locale\<close>) is a parameter.\<close>

definition HTTPModule :: "(string \<Rightarrow> string) \<Rightarrow> page_value node" where
  "HTTPModule t =
     Element ''Layout.Page'' []
       [Element ''PageErrorProvider'' []
          [Element ''Layout.Header'' []
             [Element ''Layout.HeaderContent'' []
                [Element ''Layout.Title'' [] [Expr (PString (t ''API Calls''))]]],
           Element ''Layout.Body'' []
             [Element ''Layout.Main'' [(''fullWidth'', PBoolean True)]
                [Element ''PageErrorAlert'' [] [],
                 Element ''PageFiltersContainer'' []
                   [Element ''SpansView'' [(''moduleName'', PModuleName HTTP)] []]]]]]"

section \<open>The container of the repository settings\<close>

text \<open>
  Modelled from the spec: the component \<open>OrganizationRepositoriesContainer\<close> of
  \<open>sentry/views/settings/organizationRepositories\<close> is not among the files at hand, only
  its test is. The spec: "given empty repository and provider lists from two independent
  data fetches, render a loading indicator until both resolve, then render
  provider-specific connection UI. Edge case: zero providers and zero repositories still
  must render an explanatory state, not blank output."
  A fetch is pending until its response arrives; the container holds the two fetches.
\<close>

datatype 'a fetch = Pending | Resolved 'a

record ('r, 'c) container_state =
  itemList :: "'r list fetch"
  repoConfig :: "'c list fetch"

text \<open>
  Modelled from the spec: the responses that the test registers with \<open>MockApiClient\<close>,
  the body of \<open>/organizations/org-slug/repos/\<close> and the providers of
  \<open>/organizations/org-slug/config/repos/\<close>.
\<close>

record ('r, 'c) mock_responses =
  repos_body :: "'r list"
  config_providers :: "'c list"

text \<open>
  Modelled from the spec: mounting the container starts the two fetches; a response
  arrives after the initial render ("before any non-empty response arrives").
\<close>

definition mount :: "('r, 'c) mock_responses \<Rightarrow> ('r, 'c) container_state" where
  "mount api = \<lparr>itemList = Pending, repoConfig = Pending\<rparr>"

definition repos_arrive ::
  "('r, 'c) mock_responses \<Rightarrow> ('r, 'c) container_state \<Rightarrow> ('r, 'c) container_state" where
  "repos_arrive api s = s\<lparr>itemList := Resolved (repos_body api)\<rparr>"

definition config_arrives ::
  "('r, 'c) mock_responses \<Rightarrow> ('r, 'c) container_state \<Rightarrow> ('r, 'c) container_state" where
  "config_arrives api s = s\<lparr>repoConfig := Resolved (config_providers api)\<rparr>"

datatype ('r, 'c) container_value = Repositories "'r list" | Providers "'c list"

text \<open>
  Modelled from the spec: "render a loading indicator until both resolve, then render
  provider-specific connection UI", and with no provider and no repository "an
  explanatory state, not blank output".
\<close>

definition OrganizationRepositoriesContainer ::
  "('r, 'c) container_state \<Rightarrow> ('r, 'c) container_value node" where
  "OrganizationRepositoriesContainer s =
     (case (itemList s, repoConfig s) of
        (Resolved repos, Resolved providers) \<Rightarrow>
          if repos = [] \<and> providers = [] then Element ''EmptyMessage'' [] []
          else Element ''OrganizationRepositories''
                 [(''itemList'', Repositories repos), (''repoConfig'', Providers providers)] []
      | _ \<Rightarrow> Element ''LoadingIndicator'' [] [])"

text \<open>The test's responses: no repository and no provider.\<close>

definition example_responses :: "(unit, unit) mock_responses" where
  "example_responses = \<lparr>repos_body = [], config_providers = []\<rparr>"

section \<open>Properties of the DOM mutation row\<close>

lemma classes_of_DomMutationRow:
  "classes_of (DomMutationRow getFrameDetails beautify_html p) =
     classNames (styleFlags (currentHoverTime p) (currentTime p)
       (Extraction.frame (mutation p)))"
  by (simp add: DomMutationRow_def classes_of_def attr_def Let_def)

text \<open>
  Claim C1: for every current time and every offset of the frame, \<open>hasOccurred\<close> is
  true if and only if \<open>currentTime >= frame.offsetMs\<close>; the flag \<open>beforeCurrentTime\<close>
  is \<open>hasOccurred\<close> and the flag \<open>afterCurrentTime\<close> is its negation, so the rendered
  row has exactly one of the two classes.
\<close>

theorem DomMutationRow_current_time_flags:
  "hasOccurred (currentTime p) (Extraction.frame (mutation p)) =
     number_ge (currentTime p) (offsetMs (Extraction.frame (mutation p))) \<and>
   map_of (styleFlags (currentHoverTime p) (currentTime p) (Extraction.frame (mutation p)))
     ''beforeCurrentTime'' = Some (hasOccurred (currentTime p) (Extraction.frame (mutation p))) \<and>
   map_of (styleFlags (currentHoverTime p) (currentTime p) (Extraction.frame (mutation p)))
     ''afterCurrentTime'' = Some (\<not> hasOccurred (currentTime p) (Extraction.frame (mutation p))) \<and>
   (''beforeCurrentTime'' \<in> set (classes_of (DomMutationRow getFrameDetails beautify_html p))) =
     number_ge (currentTime p) (offsetMs (Extraction.frame (mutation p))) \<and>
   (''afterCurrentTime'' \<in> set (classes_of (DomMutationRow getFrameDetails beautify_html p))) =
     (\<not> number_ge (currentTime p) (offsetMs (Extraction.frame (mutation p))))"
  by (simp add: classes_of_DomMutationRow classNames_def styleFlags_def hasOccurred_def)

theorem DomMutationRow_current_time_flags_witness:
  "hasOccurred (Fin 1500) example_frame \<and>
   ''beforeCurrentTime'' \<in> set (classes_of (DomMutationRow example_details example_beautify example_row)) \<and>
   ''afterCurrentTime'' \<notin> set (classes_of (DomMutationRow example_details example_beautify example_row))"
  using DomMutationRow_current_time_flags [of example_row example_details example_beautify]
  by (simp add: example_row_def example_frame_def hasOccurred_def)

text \<open>
  Claim C3: whenever \<open>currentHoverTime\<close> is undefined, \<open>isBeforeHover\<close> is true and
  the flag \<open>afterHoverTime\<close> is false, whatever the current time and the offset of the
  frame are; the rendered row does not have the class.
\<close>

theorem DomMutationRow_no_hover:
  "currentHoverTime p = None \<Longrightarrow>
   isBeforeHover (currentHoverTime p) (Extraction.frame (mutation p)) \<and>
   map_of (styleFlags (currentHoverTime p) (currentTime p) (Extraction.frame (mutation p)))
     ''afterHoverTime'' = Some False \<and>
   ''afterHoverTime'' \<notin> set (classes_of (DomMutationRow getFrameDetails beautify_html p))"
  by (simp add: classes_of_DomMutationRow classNames_def styleFlags_def isBeforeHover_def)

theorem DomMutationRow_no_hover_witness:
  "currentHoverTime example_row = None \<and>
   isBeforeHover None example_frame \<and>
   map_of (styleFlags None (Fin 1500) example_frame) ''afterHoverTime'' = Some False \<and>
   ''afterHoverTime'' \<notin> set (classes_of (DomMutationRow example_details example_beautify example_row))"
proof -
  have undefined_hover: "currentHoverTime example_row = None"
    by (simp add: example_row_def)
  show ?thesis
    using undefined_hover
      DomMutationRow_no_hover [OF undefined_hover, of example_details example_beautify]
    by (simp add: example_row_def)
qed

text \<open>
  Claim C6: the handler of mouse-enter of the row calls the caller's \<open>handleMouseEnter\<close>
  with the frame of the mutation, the handler of mouse-leave calls \<open>handleMouseLeave\<close>
  with the same frame, and a click on the timestamp calls \<open>onClickTimestamp\<close> with the
  frame (after stopping the propagation of the event). The row holds no state: it is a
  function of its props, it installs these three handlers and no other, and each changes
  the caller's state only as the caller's callback does.
\<close>

theorem DomMutationRow_handlers:
  "map (\<lambda>h. h w) (mouse_handlers ''onMouseEnter'' (DomMutationRow getFrameDetails beautify_html p)) =
     [handleMouseEnter p (Extraction.frame (mutation p)) w] \<and>
   map (\<lambda>h. h w) (mouse_handlers ''onMouseLeave'' (DomMutationRow getFrameDetails beautify_html p)) =
     [handleMouseLeave p (Extraction.frame (mutation p)) w] \<and>
   map (\<lambda>h. h ev w) (click_handlers (DomMutationRow getFrameDetails beautify_html p)) =
     [(stopPropagation ev, onClickTimestamp p (Extraction.frame (mutation p)) w)] \<and>
   handler_names (DomMutationRow getFrameDetails beautify_html p) =
     [''onMouseEnter'', ''onMouseLeave'', ''onClick'']"
  by (simp add: DomMutationRow_def attr_def Let_def mouse_handlers_def click_handlers_def
      elements_named_def handler_names_def)

theorem DomMutationRow_handlers_witness:
  "map (\<lambda>h. h []) (mouse_handlers ''onMouseEnter''
      (DomMutationRow example_details example_beautify example_row)) =
     [[(''handleMouseEnter'', example_frame)]] \<and>
   map (\<lambda>h. h []) (mouse_handlers ''onMouseLeave''
      (DomMutationRow example_details example_beautify example_row)) =
     [[(''handleMouseLeave'', example_frame)]] \<and>
   map (\<lambda>h. h \<lparr>propagationStopped = False\<rparr> [])
      (click_handlers (DomMutationRow example_details example_beautify example_row)) =
     [(\<lparr>propagationStopped = True\<rparr>, [(''onClickTimestamp'', example_frame)])]"
  using DomMutationRow_handlers
    [of "[]" example_details example_beautify example_row "\<lparr>propagationStopped = False\<rparr>"]
  by (simp add: example_row_def stopPropagation_def)

text \<open>
  Claim C7: for every mutation, the text that the row displays in its code snippet is
  the HTML snapshot pretty-printed by the beautifier with an indent size of 2. The row
  has no branch on the snapshot: whatever the string is, malformed HTML too, the snippet
  is rendered, with the text that the beautifier returns.
\<close>

theorem DomMutationRow_beautified_html:
  "map children_of (elements_named ''CodeSnippet'' (DomMutationRow getFrameDetails beautify_html p)) =
     [[Expr (Str (beautify_html (html (mutation p)) \<lparr>indent_size = 2\<rparr>))]]"
  by (simp add: DomMutationRow_def Let_def elements_named_def)

theorem DomMutationRow_beautified_html_witness:
  "map children_of (elements_named ''CodeSnippet''
      (DomMutationRow example_details example_beautify example_row)) =
     [[Expr (Str ''  <div><p>text</div>'')]]"
  using DomMutationRow_beautified_html [of example_details example_beautify example_row]
  by (simp add: example_row_def example_beautify_def numeral_2_eq_2)

section \<open>Properties of the default line of a stack frame\<close>

lemma renderRepeats_Null:
  "(renderRepeats tn n = (Null :: ('f, 'v) line_value node)) =
     (\<not> (defined n \<and> number_gt (to_number n) (Fin 0)))"
  by (simp add: renderRepeats_def)

lemma defined_positive_iff:
  "(defined n \<and> number_gt (to_number n) (Fin 0)) = (\<exists>k. n = Some k \<and> number_gt k (Fin 0))"
  by (cases n) (simp_all add: defined_def)

lemma elements_named_Default:
  "elements_named ''RepeatedFrames'' (Default tn p) =
     (if defined (timesRepeated p) \<and> number_gt (to_number (timesRepeated p)) (Fin 0)
      then [renderRepeats tn (timesRepeated p)] else [])"
  by (simp add: Default_def renderRepeats_def elements_named_def)

lemma badge_rendered_iff:
  "(elements_named ''RepeatedFrames'' (Default tn p) \<noteq> []) =
     (\<exists>n. timesRepeated p = Some n \<and> number_gt n (Fin 0))"
  by (simp add: elements_named_Default defined_positive_iff)

lemma renderRepeats_rendered_iff:
  "(renderRepeats tn n \<noteq> (Null :: ('f, 'v) line_value node)) =
     (\<exists>k. n = Some k \<and> number_gt k (Fin 0))"
  by (simp add: renderRepeats_Null defined_positive_iff)

text \<open>
  Claim C4: for every \<open>timesRepeated\<close>, the line renders the badge of repeated frames if
  and only if \<open>timesRepeated\<close> is defined and greater than zero; for \<open>timesRepeated\<close>
  undefined, zero or negative there is no badge.
\<close>

theorem Default_repeats_badge:
  "(elements_named ''RepeatedFrames'' (Default tn p) \<noteq> []) =
     (\<exists>n. timesRepeated p = Some n \<and> number_gt n (Fin 0)) \<and>
   (renderRepeats tn (timesRepeated p) \<noteq> (Null :: ('f, 'v) line_value node)) =
     (\<exists>n. timesRepeated p = Some n \<and> number_gt n (Fin 0)) \<and>
   (timesRepeated p = None \<longrightarrow> elements_named ''RepeatedFrames'' (Default tn p) = []) \<and>
   (\<forall>q. timesRepeated p = Some (Fin q) \<longrightarrow>
      (elements_named ''RepeatedFrames'' (Default tn p) \<noteq> []) = (0 < q))"
  for p :: "('f, 'v) DefaultProps"
proof -
  have no_count: "timesRepeated p = None \<longrightarrow> elements_named ''RepeatedFrames'' (Default tn p) = []"
    by (simp add: elements_named_Default defined_def)
  show ?thesis
    using no_count by (simp add: badge_rendered_iff renderRepeats_rendered_iff)
qed

theorem Default_repeats_badge_witness:
  "timesRepeated example_line = Some (Fin 3) \<and>
   elements_named ''RepeatedFrames'' (Default example_tn example_line) \<noteq> [] \<and>
   timesRepeated (example_line\<lparr>timesRepeated := None\<rparr>) = None \<and>
   elements_named ''RepeatedFrames'' (Default example_tn (example_line\<lparr>timesRepeated := None\<rparr>)) = [] \<and>
   elements_named ''RepeatedFrames''
     (Default example_tn (example_line\<lparr>timesRepeated := Some (Fin 0)\<rparr>)) = [] \<and>
   elements_named ''RepeatedFrames''
     (Default example_tn (example_line\<lparr>timesRepeated := Some (Fin (- 2))\<rparr>)) = []"
  using Default_repeats_badge [of example_tn example_line]
    Default_repeats_badge [of example_tn "example_line\<lparr>timesRepeated := None\<rparr>"]
    Default_repeats_badge [of example_tn "example_line\<lparr>timesRepeated := Some (Fin 0)\<rparr>"]
    Default_repeats_badge [of example_tn "example_line\<lparr>timesRepeated := Some (Fin (- 2))\<rparr>"]
  by (simp add: example_line_def)

section \<open>Properties of the evidence of an event\<close>

text \<open>
  Claim C5: for every event that has an occurrence and is a profiling issue, the
  component returns the element \<open>ProfileEventEvidence\<close> with the event and the slug of the
  project, whatever the registry of configurations and the derivation of category and
  type are: it does no lookup and renders no list of keys and values of its own.
\<close>

theorem EventEvidence_profiling:
  "occurrence (event p) = Some occ \<Longrightarrow> eventIsProfilingIssue (event p) \<Longrightarrow>
   EventEvidence eventIsProfilingIssue getCategoryAndType getConfig p =
     Element ''ProfileEventEvidence''
       [(''event'', EEvent (event p)), (''projectSlug'', EString (projectSlug p))] [] \<and>
   elements_named ''KeyValueList''
     (EventEvidence eventIsProfilingIssue getCategoryAndType getConfig p) = []"
  by (simp add: EventEvidence_def elements_named_def)

theorem EventEvidence_profiling_witness:
  "occurrence example_profile_event = Some \<lparr>evidenceDisplay = Some [], type = Fin 2001\<rparr> \<and>
   example_profiling example_profile_event \<and>
   EventEvidence example_profiling example_category example_registry
     \<lparr>event = example_profile_event, projectSlug = ''backend'', group = Some example_group\<rparr> =
   Element ''ProfileEventEvidence''
     [(''event'', EEvent example_profile_event), (''projectSlug'', EString ''backend'')] []"
proof -
  have present: "occurrence (event \<lparr>event = example_profile_event, projectSlug = ''backend'',
      group = Some example_group\<rparr>) = Some \<lparr>evidenceDisplay = Some [], type = Fin 2001\<rparr>"
    by (simp add: example_profile_event_def)
  have profiling: "example_profiling (event \<lparr>event = example_profile_event,
      projectSlug = ''backend'', group = Some example_group\<rparr>)"
    by (simp add: example_profiling_def example_profile_event_def)
  show ?thesis
    using present profiling
      EventEvidence_profiling [where eventIsProfilingIssue = example_profiling
        and getCategoryAndType = example_category and getConfig = example_registry,
        OF present profiling]
    by simp
qed

text \<open>
  Claim C2, as it stands, fails: an event of a profiling issue that has an occurrence is
  handed to \<open>ProfileEventEvidence\<close> although its list of evidence is empty and the
  registry has no configuration of evidence for its category.
\<close>

theorem EventEvidence_empty_list_counterexample:
  "occurrence example_profile_event = Some \<lparr>evidenceDisplay = Some [], type = Fin 2001\<rparr> \<and>
   evidence (example_registry (example_category (Fin 2001))) = None \<and>
   EventEvidence example_profiling example_category example_registry
     \<lparr>event = example_profile_event, projectSlug = ''backend'',
      group = (None :: IssueCategoryAndType option)\<rparr> =
   Element ''ProfileEventEvidence''
     [(''event'', EEvent example_profile_event), (''projectSlug'', EString ''backend'')] [] \<and>
   EventEvidence example_profiling example_category example_registry
     \<lparr>event = example_profile_event, projectSlug = ''backend'',
      group = (None :: IssueCategoryAndType option)\<rparr> \<noteq> Null"
  by (simp add: EventEvidence_def example_profile_event_def example_profiling_def
      example_registry_def example_category_def)

lemma EventEvidence_not_profiling:
  "occurrence (event p) = Some occ \<Longrightarrow> \<not> eventIsProfilingIssue (event p) \<Longrightarrow>
   EventEvidence eventIsProfilingIssue getCategoryAndType getConfig p =
     (case (evidenceDisplay occ,
            evidence (getConfig (issueCategoryAndType getCategoryAndType (group p) occ))) of
        (Some items, Some c) \<Rightarrow>
          if length items = 0 then Null
          else
            Element ''EventDataSection''
              [(''title'', EString (evidence_config.title c)),
               (''type'', EString ''evidence''),
               (''help'', EOptString (helpText c))]
              [Element ''KeyValueList''
                 [(''data'', EObjects (map (\<lambda>item.
                     [(''subject'', name item),
                      (''key'', name item),
                      (''value'', value item)]) items)),
                  (''shouldSort'', EBoolean False)]
                 []]
      | _ \<Rightarrow> Null)"
  by (simp add: EventEvidence_def)

text \<open>
  Claim C2, amended: the component renders nothing when the event has no occurrence,
  and, for an event that is not a profiling issue, when the resolved configuration of
  evidence is absent or the list of evidence is missing or empty; when the occurrence,
  the configuration and a non-empty list are present and the event is not a profiling
  issue, it gives to one \<open>KeyValueList\<close> exactly one row per item of evidence (subject
  and key the name of the item, value its value), in the order of the list, with
  \<open>shouldSort\<close> false.
\<close>

theorem EventEvidence_rows:
  "(occurrence (event p) = None \<longrightarrow>
      EventEvidence eventIsProfilingIssue getCategoryAndType getConfig p = Null) \<and>
   (\<forall>occ. occurrence (event p) = Some occ \<and> \<not> eventIsProfilingIssue (event p) \<and>
      (evidence (getConfig (issueCategoryAndType getCategoryAndType (group p) occ)) = None \<or>
       evidenceDisplay occ = None \<or> evidenceDisplay occ = Some []) \<longrightarrow>
      EventEvidence eventIsProfilingIssue getCategoryAndType getConfig p = Null) \<and>
   (\<forall>occ c items. occurrence (event p) = Some occ \<and> \<not> eventIsProfilingIssue (event p) \<and>
      evidence (getConfig (issueCategoryAndType getCategoryAndType (group p) occ)) = Some c \<and>
      evidenceDisplay occ = Some items \<and> items \<noteq> [] \<longrightarrow>
      keyValueRows (EventEvidence eventIsProfilingIssue getCategoryAndType getConfig p) =
        [map (\<lambda>item. [(''subject'', name item), (''key'', name item), (''value'', value item)])
           items] \<and>
      map (attr ''shouldSort'')
        (elements_named ''KeyValueList''
           (EventEvidence eventIsProfilingIssue getCategoryAndType getConfig p)) =
        [Some (EBoolean False)])"
proof (intro conjI allI impI)
  assume "occurrence (event p) = None"
  then show "EventEvidence eventIsProfilingIssue getCategoryAndType getConfig p = Null"
    by (simp add: EventEvidence_def)
next
  fix occ
  assume a: "occurrence (event p) = Some occ \<and> \<not> eventIsProfilingIssue (event p) \<and>
      (evidence (getConfig (issueCategoryAndType getCategoryAndType (group p) occ)) = None \<or>
       evidenceDisplay occ = None \<or> evidenceDisplay occ = Some [])"
  then have "occurrence (event p) = Some occ" and "\<not> eventIsProfilingIssue (event p)"
    by simp_all
  note rendered = EventEvidence_not_profiling
      [where eventIsProfilingIssue = eventIsProfilingIssue
        and getCategoryAndType = getCategoryAndType and getConfig = getConfig, OF this]
  from a show "EventEvidence eventIsProfilingIssue getCategoryAndType getConfig p = Null"
    unfolding rendered by (auto split: option.splits)
next
  fix occ c items
  assume a: "occurrence (event p) = Some occ \<and> \<not> eventIsProfilingIssue (event p) \<and>
      evidence (getConfig (issueCategoryAndType getCategoryAndType (group p) occ)) = Some c \<and>
      evidenceDisplay occ = Some items \<and> items \<noteq> []"
  then have "occurrence (event p) = Some occ" and "\<not> eventIsProfilingIssue (event p)"
    by simp_all
  note rendered = EventEvidence_not_profiling
      [where eventIsProfilingIssue = eventIsProfilingIssue
        and getCategoryAndType = getCategoryAndType and getConfig = getConfig, OF this]
  from a
  show "keyValueRows (EventEvidence eventIsProfilingIssue getCategoryAndType getConfig p) =
        [map (\<lambda>item. [(''subject'', name item), (''key'', name item), (''value'', value item)])
           items]"
    unfolding rendered by (simp add: keyValueRows_def elements_named_def attr_def)
  from a
  show "map (attr ''shouldSort'')
        (elements_named ''KeyValueList''
           (EventEvidence eventIsProfilingIssue getCategoryAndType getConfig p)) =
        [Some (EBoolean False)]"
    unfolding rendered by (simp add: elements_named_def attr_def)
qed

theorem EventEvidence_rows_witness:
  "EventEvidence example_profiling example_category example_registry
     \<lparr>event = example_event_no_occurrence, projectSlug = ''backend'',
      group = (None :: IssueCategoryAndType option)\<rparr> = Null \<and>
   EventEvidence example_profiling example_category example_registry
     \<lparr>event = example_event_empty_list, projectSlug = ''backend'',
      group = (None :: IssueCategoryAndType option)\<rparr> = Null \<and>
   EventEvidence example_profiling example_category example_registry
     \<lparr>event = example_event_other_category, projectSlug = ''backend'',
      group = (None :: IssueCategoryAndType option)\<rparr> = Null \<and>
   keyValueRows (EventEvidence example_profiling example_category example_registry
     \<lparr>event = example_event, projectSlug = ''backend'',
      group = (None :: IssueCategoryAndType option)\<rparr>) =
     [[[(''subject'', ''Transaction''), (''key'', ''Transaction''), (''value'', ''/books/'')],
       [(''subject'', ''Offending Spans''), (''key'', ''Offending Spans''),
        (''value'', ''db - SELECT'')]]] \<and>
   map (attr ''shouldSort'') (elements_named ''KeyValueList''
     (EventEvidence example_profiling example_category example_registry
        \<lparr>event = example_event, projectSlug = ''backend'',
         group = (None :: IssueCategoryAndType option)\<rparr>)) = [Some (EBoolean False)]"
  using
    EventEvidence_rows [of "\<lparr>event = example_event_no_occurrence, projectSlug = ''backend'',
      group = (None :: IssueCategoryAndType option)\<rparr>"
      example_profiling example_category example_registry]
    EventEvidence_rows [of "\<lparr>event = example_event_empty_list, projectSlug = ''backend'',
      group = (None :: IssueCategoryAndType option)\<rparr>"
      example_profiling example_category example_registry]
    EventEvidence_rows [of "\<lparr>event = example_event_other_category, projectSlug = ''backend'',
      group = (None :: IssueCategoryAndType option)\<rparr>"
      example_profiling example_category example_registry]
    EventEvidence_rows [of "\<lparr>event = example_event, projectSlug = ''backend'',
      group = (None :: IssueCategoryAndType option)\<rparr>"
      example_profiling example_category example_registry]
  by (simp add: example_event_def example_event_empty_list_def example_event_other_category_def
      example_event_no_occurrence_def example_profiling_def example_category_def
      example_registry_def issueCategoryAndType_def)

text \<open>
  Claim C10: whenever a group is given, the category and the type of the issue that the
  component looks up in the registry are those of the group, and they are derived from
  the type of the occurrence only when no group is given. The lookup shows in what is
  rendered: for an event that is not a profiling issue and has a non-empty list of
  evidence, the panel is absent exactly when the registry has no configuration of
  evidence at that key, and the title and the help of the panel are those of the
  configuration at that key, the key of the group when a group is given and the derived
  key when none is. So with a group the result depends on the registry only at the key
  of the group and not at all on the derivation; without a group it depends on the
  registry only at the derived key.
\<close>

theorem EventEvidence_lookup_key:
  "issueCategoryAndType getCategoryAndType (Some g) occ =
     \<lparr>issueCategory = issueCategory g, issueType = issueType g\<rparr> \<and>
   issueCategoryAndType getCategoryAndType None occ =
     getCategoryAndType (EventOccurrence.type occ) \<and>
   (group p = Some g \<longrightarrow>
      EventEvidence eventIsProfilingIssue getCategoryAndType getConfig p =
      EventEvidence eventIsProfilingIssue otherCategoryAndType
        (\<lambda>k. getConfig \<lparr>issueCategory = issueCategory g, issueType = issueType g\<rparr>) p) \<and>
   (group p = None \<and> occurrence (event p) = Some occ' \<longrightarrow>
      EventEvidence eventIsProfilingIssue getCategoryAndType getConfig p =
      EventEvidence eventIsProfilingIssue getCategoryAndType
        (\<lambda>k. getConfig (getCategoryAndType (EventOccurrence.type occ'))) p) \<and>
   (group p = Some g \<and> occurrence (event p) = Some occ' \<and>
    \<not> eventIsProfilingIssue (event p) \<and> evidenceDisplay occ' = Some items \<and> items \<noteq> [] \<longrightarrow>
      (EventEvidence eventIsProfilingIssue getCategoryAndType getConfig p = Null) =
        (evidence (getConfig \<lparr>issueCategory = issueCategory g, issueType = issueType g\<rparr>) =
           None) \<and>
      map (attr ''title'') (elements_named ''EventDataSection''
        (EventEvidence eventIsProfilingIssue getCategoryAndType getConfig p)) =
        (case evidence (getConfig \<lparr>issueCategory = issueCategory g, issueType = issueType g\<rparr>) of
           None \<Rightarrow> []
         | Some c \<Rightarrow> [Some (EString (evidence_config.title c))]) \<and>
      map (attr ''help'') (elements_named ''EventDataSection''
        (EventEvidence eventIsProfilingIssue getCategoryAndType getConfig p)) =
        (case evidence (getConfig \<lparr>issueCategory = issueCategory g, issueType = issueType g\<rparr>) of
           None \<Rightarrow> []
         | Some c \<Rightarrow> [Some (EOptString (helpText c))])) \<and>
   (group p = None \<and> occurrence (event p) = Some occ' \<and>
    \<not> eventIsProfilingIssue (event p) \<and> evidenceDisplay occ' = Some items \<and> items \<noteq> [] \<longrightarrow>
      (EventEvidence eventIsProfilingIssue getCategoryAndType getConfig p = Null) =
        (evidence (getConfig (getCategoryAndType (EventOccurrence.type occ'))) = None) \<and>
      map (attr ''title'') (elements_named ''EventDataSection''
        (EventEvidence eventIsProfilingIssue getCategoryAndType getConfig p)) =
        (case evidence (getConfig (getCategoryAndType (EventOccurrence.type occ'))) of
           None \<Rightarrow> []
         | Some c \<Rightarrow> [Some (EString (evidence_config.title c))]) \<and>
      map (attr ''help'') (elements_named ''EventDataSection''
        (EventEvidence eventIsProfilingIssue getCategoryAndType getConfig p)) =
        (case evidence (getConfig (getCategoryAndType (EventOccurrence.type occ'))) of
           None \<Rightarrow> []
         | Some c \<Rightarrow> [Some (EOptString (helpText c))]))"
proof -
  have key: "issueCategoryAndType getCategoryAndType (Some g) occ =
       \<lparr>issueCategory = issueCategory g, issueType = issueType g\<rparr> \<and>
     issueCategoryAndType getCategoryAndType None occ =
       getCategoryAndType (EventOccurrence.type occ)"
    by (simp add: issueCategoryAndType_def)
  have only_at_key: "(group p = Some g \<longrightarrow>
        EventEvidence eventIsProfilingIssue getCategoryAndType getConfig p =
        EventEvidence eventIsProfilingIssue otherCategoryAndType
          (\<lambda>k. getConfig \<lparr>issueCategory = issueCategory g, issueType = issueType g\<rparr>) p) \<and>
     (group p = None \<and> occurrence (event p) = Some occ' \<longrightarrow>
        EventEvidence eventIsProfilingIssue getCategoryAndType getConfig p =
        EventEvidence eventIsProfilingIssue getCategoryAndType
          (\<lambda>k. getConfig (getCategoryAndType (EventOccurrence.type occ'))) p)"
    by (simp add: issueCategoryAndType_def EventEvidence_def split: option.splits)
  have with_group: "group p = Some g \<and> occurrence (event p) = Some occ' \<and>
      \<not> eventIsProfilingIssue (event p) \<and> evidenceDisplay occ' = Some items \<and> items \<noteq> [] \<longrightarrow>
      (EventEvidence eventIsProfilingIssue getCategoryAndType getConfig p = Null) =
        (evidence (getConfig \<lparr>issueCategory = issueCategory g, issueType = issueType g\<rparr>) =
           None) \<and>
      map (attr ''title'') (elements_named ''EventDataSection''
        (EventEvidence eventIsProfilingIssue getCategoryAndType getConfig p)) =
        (case evidence (getConfig \<lparr>issueCategory = issueCategory g, issueType = issueType g\<rparr>) of
           None \<Rightarrow> []
         | Some c \<Rightarrow> [Some (EString (evidence_config.title c))]) \<and>
      map (attr ''help'') (elements_named ''EventDataSection''
        (EventEvidence eventIsProfilingIssue getCategoryAndType getConfig p)) =
        (case evidence (getConfig \<lparr>issueCategory = issueCategory g, issueType = issueType g\<rparr>) of
           None \<Rightarrow> []
         | Some c \<Rightarrow> [Some (EOptString (helpText c))])"
    by (simp add: issueCategoryAndType_def EventEvidence_def elements_named_def attr_def
        split: option.splits)
  have without_group: "group p = None \<and> occurrence (event p) = Some occ' \<and>
      \<not> eventIsProfilingIssue (event p) \<and> evidenceDisplay occ' = Some items \<and> items \<noteq> [] \<longrightarrow>
      (EventEvidence eventIsProfilingIssue getCategoryAndType getConfig p = Null) =
        (evidence (getConfig (getCategoryAndType (EventOccurrence.type occ'))) = None) \<and>
      map (attr ''title'') (elements_named ''EventDataSection''
        (EventEvidence eventIsProfilingIssue getCategoryAndType getConfig p)) =
        (case evidence (getConfig (getCategoryAndType (EventOccurrence.type occ'))) of
           None \<Rightarrow> []
         | Some c \<Rightarrow> [Some (EString (evidence_config.title c))]) \<and>
      map (attr ''help'') (elements_named ''EventDataSection''
        (EventEvidence eventIsProfilingIssue getCategoryAndType getConfig p)) =
        (case evidence (getConfig (getCategoryAndType (EventOccurrence.type occ'))) of
           None \<Rightarrow> []
         | Some c \<Rightarrow> [Some (EOptString (helpText c))])"
    by (simp add: issueCategoryAndType_def EventEvidence_def elements_named_def attr_def
        split: option.splits)
  from key only_at_key with_group without_group show ?thesis
    by blast
qed

theorem EventEvidence_lookup_key_witness:
  "issueCategoryAndType example_category (Some example_group)
     \<lparr>evidenceDisplay = Some [\<lparr>name = ''Reason'', value = ''timeout''\<rparr>], type = Fin 8001\<rparr> =
     \<lparr>issueCategory = ''performance'', issueType = ''performance_slow_db_query''\<rparr> \<and>
   issueCategoryAndType example_category (None :: IssueCategoryAndType option)
     \<lparr>evidenceDisplay = Some [\<lparr>name = ''Reason'', value = ''timeout''\<rparr>], type = Fin 8001\<rparr> =
     \<lparr>issueCategory = ''cron'', issueType = ''monitor_check_in_failure''\<rparr> \<and>
   keyValueRows (EventEvidence example_profiling example_category example_registry
     \<lparr>event = example_event_other_category, projectSlug = ''backend'',
      group = Some example_group\<rparr>) =
     [[[(''subject'', ''Reason''), (''key'', ''Reason''), (''value'', ''timeout'')]]] \<and>
   EventEvidence example_profiling example_category example_registry
     \<lparr>event = example_event_other_category, projectSlug = ''backend'',
      group = (None :: IssueCategoryAndType option)\<rparr> = Null \<and>
   map (attr ''title'') (elements_named ''EventDataSection''
     (EventEvidence example_profiling example_category example_echo_registry
        \<lparr>event = example_event_other_category, projectSlug = ''backend'',
         group = Some example_group\<rparr>)) =
     [Some (EString ''performance/performance_slow_db_query'')] \<and>
   map (attr ''title'') (elements_named ''EventDataSection''
     (EventEvidence example_profiling example_category example_echo_registry
        \<lparr>event = example_event_other_category, projectSlug = ''backend'',
         group = (None :: IssueCategoryAndType option)\<rparr>)) =
     [Some (EString ''cron/monitor_check_in_failure'')]"
proof -
  let ?occ = "\<lparr>evidenceDisplay = Some [\<lparr>name = ''Reason'', value = ''timeout''\<rparr>],
    type = Fin 8001\<rparr>"
  let ?with = "\<lparr>event = example_event_other_category, projectSlug = ''backend'',
    group = Some example_group\<rparr>"
  let ?without = "\<lparr>event = example_event_other_category, projectSlug = ''backend'',
    group = (None :: IssueCategoryAndType option)\<rparr>"
  note with_group = EventEvidence_lookup_key
    [where getCategoryAndType = example_category and otherCategoryAndType = example_category
      and g = example_group and occ = ?occ and occ' = ?occ and p = ?with
      and eventIsProfilingIssue = example_profiling and getConfig = example_registry
      and items = "[\<lparr>name = ''Reason'', value = ''timeout''\<rparr>]"]
  note without_group = EventEvidence_lookup_key
    [where getCategoryAndType = example_category and otherCategoryAndType = example_category
      and g = example_group and occ = ?occ and occ' = ?occ and p = ?without
      and eventIsProfilingIssue = example_profiling and getConfig = example_registry
      and items = "[\<lparr>name = ''Reason'', value = ''timeout''\<rparr>]"]
  note echo_with_group = EventEvidence_lookup_key
    [where getCategoryAndType = example_category and otherCategoryAndType = example_category
      and g = example_group and occ = ?occ and occ' = ?occ and p = ?with
      and eventIsProfilingIssue = example_profiling and getConfig = example_echo_registry
      and items = "[\<lparr>name = ''Reason'', value = ''timeout''\<rparr>]"]
  note echo_without_group = EventEvidence_lookup_key
    [where getCategoryAndType = example_category and otherCategoryAndType = example_category
      and g = example_group and occ = ?occ and occ' = ?occ and p = ?without
      and eventIsProfilingIssue = example_profiling and getConfig = example_echo_registry
      and items = "[\<lparr>name = ''Reason'', value = ''timeout''\<rparr>]"]
  show ?thesis
    using with_group without_group echo_with_group echo_without_group
    by (simp add: EventEvidence_def issueCategoryAndType_def keyValueRows_def elements_named_def
        attr_def example_event_other_category_def example_profiling_def example_category_def
        example_registry_def example_echo_registry_def example_group_def)
qed

section \<open>Properties of the page of the HTTP module\<close>

text \<open>
  Claim C8: the page takes no props and renders one fixed composition, without a branch:
  one title, the translation of \<open>API Calls\<close>; one banner of page errors; and one view of
  spans whose module is \<open>ModuleName.HTTP\<close>. The elements are the same, in the same order,
  whatever the translation is.
\<close>

theorem HTTPModule_static:
  "map children_of (elements_named ''Layout.Title'' (HTTPModule t)) =
     [[Expr (PString (t ''API Calls''))]] \<and>
   elements_named ''PageErrorAlert'' (HTTPModule t) = [Element ''PageErrorAlert'' [] []] \<and>
   elements_named ''SpansView'' (HTTPModule t) =
     [Element ''SpansView'' [(''moduleName'', PModuleName HTTP)] []] \<and>
   map tag_of (descendants (HTTPModule t)) =
     [Some ''Layout.Page'', Some ''PageErrorProvider'', Some ''Layout.Header'',
      Some ''Layout.HeaderContent'', Some ''Layout.Title'', None, Some ''Layout.Body'',
      Some ''Layout.Main'', Some ''PageErrorAlert'', Some ''PageFiltersContainer'',
      Some ''SpansView'']"
  by (simp add: HTTPModule_def elements_named_def)

theorem HTTPModule_static_witness:
  "map children_of (elements_named ''Layout.Title'' (HTTPModule id)) =
     [[Expr (PString ''API Calls'')]] \<and>
   map (attr ''moduleName'') (elements_named ''SpansView'' (HTTPModule id)) =
     [Some (PModuleName HTTP)]"
  using HTTPModule_static [of id]
  by (simp add: attr_def)

section \<open>Properties of the container of the repository settings\<close>

text \<open>
  Claim C9: when both sources of data answer with empty results, the container renders
  a loading indicator on the initial render, before a response has arrived, and as long
  as one of the two responses has not arrived; once both have arrived it no longer does.
\<close>

theorem OrganizationRepositoriesContainer_initially_loading:
  "repos_body api = [] \<Longrightarrow> config_providers api = [] \<Longrightarrow>
   OrganizationRepositoriesContainer (mount api) = Element ''LoadingIndicator'' [] [] \<and>
   OrganizationRepositoriesContainer (repos_arrive api (mount api)) =
     Element ''LoadingIndicator'' [] [] \<and>
   OrganizationRepositoriesContainer (config_arrives api (mount api)) =
     Element ''LoadingIndicator'' [] [] \<and>
   OrganizationRepositoriesContainer (config_arrives api (repos_arrive api (mount api))) \<noteq>
     Element ''LoadingIndicator'' [] []"
  by (simp add: OrganizationRepositoriesContainer_def mount_def repos_arrive_def
      config_arrives_def)

theorem OrganizationRepositoriesContainer_initially_loading_witness:
  "repos_body example_responses = [] \<and> config_providers example_responses = [] \<and>
   OrganizationRepositoriesContainer (mount example_responses) =
     Element ''LoadingIndicator'' [] []"
proof -
  have no_repos: "repos_body example_responses = []"
    by (simp add: example_responses_def)
  have no_providers: "config_providers example_responses = []"
    by (simp add: example_responses_def)
  show ?thesis
    using no_repos no_providers
      OrganizationRepositoriesContainer_initially_loading [OF no_repos no_providers]
    by simp
qed

end
